theory Spec2Isabelle
  imports Main
begin

section \<open>The module \<open>o4n_render_config\<close>\<close>

text \<open>
  This theory embeds \<^verbatim>\<open>src/plugins/modules/o4n_render_config.py\<close>: the functions
  \<^verbatim>\<open>load_content\<close>, \<^verbatim>\<open>parse_configuration\<close>, \<^verbatim>\<open>render_configuration\<close> and \<^verbatim>\<open>main\<close>.
  The module is Python, so the values it handles are dynamically typed; the two libraries
  it calls (\<^verbatim>\<open>ttp\<close> for extraction, \<^verbatim>\<open>jinja2\<close> for rendering) are not part of the
  repository and enter the model as parameters, collected in the record \<open>env\<close>.
\<close>

subsection \<open>Python values\<close>

text \<open>
  The values that travel through the module: what \<^verbatim>\<open>parser.result(format="raw")\<close>
  returns and what the raw-typed option \<^verbatim>\<open>keys_ignore\<close> may hold. A \<^verbatim>\<open>dict\<close> is an
  association list (Python keeps insertion order); its keys are strings. A string is the
  list of its characters, one \<open>char\<close> for each character of the Python string.
\<close>

datatype pyval =
    PNone
  | PBool bool
  | PInt int
  | PStr string
  | PList "pyval list"
  | PDict "(string \<times> pyval) list"

text \<open>Exceptions raised inside the module, by kind.\<close>

datatype exc =
    LoadError string
      \<comment> \<open>\<^verbatim>\<open>ValueError("Error loading content: ...")\<close> of \<^verbatim>\<open>load_content\<close>; the path\<close>
  | ParseError string
      \<comment> \<open>\<^verbatim>\<open>ValueError("Error en parseo TTP: ...")\<close> of \<^verbatim>\<open>parse_configuration\<close>\<close>
  | JinjaError string
      \<comment> \<open>an exception raised by \<^verbatim>\<open>Template(...)\<close> or by \<^verbatim>\<open>template.render\<close>\<close>
  | UnpackError nat
      \<comment> \<open>\<^verbatim>\<open>ValueError\<close>: a string of this length unpacked into three names\<close>
  | OSError
      \<comment> \<open>a file could not be opened (\<^verbatim>\<open>FileNotFoundError\<close>, \<^verbatim>\<open>PermissionError\<close>, ...)\<close>
  | TypeError
  | AttributeError
  | IndexError
  | KeyError

text \<open>Truth value of a Python object, as \<^verbatim>\<open>if x:\<close> and \<^verbatim>\<open>not x\<close> take it.\<close>

fun py_truthy :: "pyval \<Rightarrow> bool" where
  "py_truthy PNone = False"
| "py_truthy (PBool b) = b"
| "py_truthy (PInt i) = (i \<noteq> 0)"
| "py_truthy (PStr s) = (s \<noteq> [])"
| "py_truthy (PList xs) = (xs \<noteq> [])"
| "py_truthy (PDict kvs) = (kvs \<noteq> [])"

text \<open>
  \<^verbatim>\<open>for x in v\<close>: a list yields its elements, a string its characters (each a string of
  length one), a dict its keys; the other values are not iterable.
\<close>

fun py_iter :: "pyval \<Rightarrow> exc + pyval list" where
  "py_iter (PList xs) = Inr xs"
| "py_iter (PStr s) = Inr (map (\<lambda>c. PStr [c]) s)"
| "py_iter (PDict kvs) = Inr (map (\<lambda>kv. PStr (fst kv)) kvs)"
| "py_iter PNone = Inl TypeError"
| "py_iter (PBool b) = Inl TypeError"
| "py_iter (PInt i) = Inl TypeError"

text \<open>\<^verbatim>\<open>entry.values()\<close>: only a dict has the method.\<close>

fun py_values :: "pyval \<Rightarrow> exc + pyval list" where
  "py_values (PDict kvs) = Inr (map snd kvs)"
| "py_values v = Inl AttributeError"

text \<open>\<^verbatim>\<open>f(**entry)\<close>: the argument after \<^verbatim>\<open>**\<close> must be a mapping.\<close>

fun py_kwargs :: "pyval \<Rightarrow> exc + (string \<times> pyval) list" where
  "py_kwargs (PDict kvs) = Inr kvs"
| "py_kwargs v = Inl TypeError"

text \<open>\<^verbatim>\<open>s.startswith(p)\<close> on two strings.\<close>

definition startswith :: "string \<Rightarrow> string \<Rightarrow> bool" where
  "startswith s p = (take (length p) s = p)"

text \<open>\<^verbatim>\<open>sep.join(parts)\<close>.\<close>

fun str_join :: "string \<Rightarrow> string list \<Rightarrow> string" where
  "str_join sep [] = []"
| "str_join sep [x] = x"
| "str_join sep (x # y # zs) = x @ sep @ str_join sep (y # zs)"

subsection \<open>The environment: libraries and built-ins\<close>

text \<open>
  \<^item> \<open>ttp_result env data template\<close> stands for
    \<^verbatim>\<open>parser = ttp(data, template); parser.parse(); parser.result(format="raw")\<close>:
    the extracted value, or the message of the exception the library raised.
  \<^item> \<open>Template env source\<close> stands for \<^verbatim>\<open>jinja2.Template(source)\<close>: the exception
    message when the source does not compile, otherwise the compiled template, which is
    its \<^verbatim>\<open>render(**kwargs)\<close> method (again fallible).
  \<^item> \<open>str_obj env v\<close> stands for Python's \<^verbatim>\<open>str(v)\<close> on a value that is not a string.
\<close>

type_synonym kwargs = "(string \<times> pyval) list"
type_synonym compiled = "kwargs \<Rightarrow> string + string"

record env =
  ttp_result :: "string \<Rightarrow> string \<Rightarrow> string + pyval"
  Template :: "string \<Rightarrow> string + compiled"
  str_obj :: "pyval \<Rightarrow> string"

text \<open>\<^verbatim>\<open>str(value)\<close>: a string is its own text.\<close>

definition py_str :: "env \<Rightarrow> pyval \<Rightarrow> string" where
  "py_str env v = (case v of PStr s \<Rightarrow> s | _ \<Rightarrow> str_obj env v)"

subsection \<open>\<^verbatim>\<open>load_content\<close> and \<^verbatim>\<open>parse_configuration\<close>\<close>

text \<open>
  The file system, as the module sees it through \<^verbatim>\<open>os.path.exists\<close> and \<^verbatim>\<open>open\<close>:
  \<^item> \<open>stored fs p\<close> is the text stored at the path \<open>p\<close>; \<open>None\<close> when nothing exists
    there (\<^verbatim>\<open>os.path.exists(p)\<close> is false);
  \<^item> \<open>may_read fs p\<close> tells whether \<^verbatim>\<open>open(p, 'r')\<close> succeeds on what exists there;
  \<^item> \<open>may_write fs p\<close> tells whether \<^verbatim>\<open>open(p, 'w')\<close> succeeds: the directory of \<open>p\<close>
    exists and the permissions allow it.

  A directory at \<open>p\<close> is an entry that can be neither read nor written. Once a file is
  open, reading and writing it complete; the encoding of the text is not modelled.
\<close>

type_synonym path = string

record filesys =
  stored :: "path \<rightharpoonup> string"
  may_read :: "path \<Rightarrow> bool"
  may_write :: "path \<Rightarrow> bool"

text \<open>
  The module opens its files in text mode with the default \<^verbatim>\<open>newline=None\<close>. Reading
  then gives every line ending, \<^verbatim>\<open>\r\n\<close> or \<^verbatim>\<open>\r\<close> alone, as \<^verbatim>\<open>\n\<close>.
\<close>

fun universal_newlines :: "string \<Rightarrow> string" where
  "universal_newlines [] = []"
| "universal_newlines [a] = [if a = CHR 0x0D then CHR 0x0A else a]"
| "universal_newlines (a # b # cs) =
     (if a = CHR 0x0D \<and> b = CHR 0x0A then CHR 0x0A # universal_newlines cs
      else if a = CHR 0x0D then CHR 0x0A # universal_newlines (b # cs)
      else a # universal_newlines (b # cs))"

text \<open>\<^verbatim>\<open>with open(p, 'r') as f: f.read()\<close>.\<close>

definition read_text :: "filesys \<Rightarrow> path \<Rightarrow> exc + string" where
  "read_text fs p =
     (case stored fs p of
        None \<Rightarrow> Inl OSError
      | Some text \<Rightarrow> if may_read fs p then Inr (universal_newlines text) else Inl OSError)"

text \<open>
  \<^verbatim>\<open>with open(p, 'w') as f: f.write(text)\<close>. Writing translates \<^verbatim>\<open>\n\<close> to the line
  separator of the platform, which is \<^verbatim>\<open>\n\<close> itself on the POSIX systems the module runs
  on, so the text is stored as it is. A failed \<^verbatim>\<open>open\<close> changes nothing.
\<close>

definition write_text :: "filesys \<Rightarrow> path \<Rightarrow> string \<Rightarrow> exc + filesys" where
  "write_text fs p text =
     (if may_write fs p then Inr (fs\<lparr>stored := (stored fs)(p \<mapsto> text)\<rparr>) else Inl OSError)"

text \<open>
  \<^verbatim>\<open>load_content(param_value, is_path)\<close>. The parameter is an option of type \<^verbatim>\<open>str\<close>:
  \<open>None\<close> is Python's \<^verbatim>\<open>None\<close> (the option was not given). With \<^verbatim>\<open>is_path\<close>, a missing
  file raises \<^verbatim>\<open>ValueError\<close>, and so do \<^verbatim>\<open>None\<close> (\<^verbatim>\<open>os.path.exists(None)\<close> raises
  \<^verbatim>\<open>TypeError\<close>) and a file that cannot be opened; the handler of the function turns
  every exception into its own \<^verbatim>\<open>ValueError\<close>. Without \<^verbatim>\<open>is_path\<close> the value is returned
  as it is.
\<close>

definition load_content :: "filesys \<Rightarrow> string option \<Rightarrow> bool \<Rightarrow> exc + (string option \<times> string)" where
  "load_content fs param_value is_path =
     (if is_path then
        (case param_value of
           None \<Rightarrow> Inl (LoadError [])
         | Some p \<Rightarrow>
             (case stored fs p of
                None \<Rightarrow> Inl (LoadError p)
              | Some stored_text \<Rightarrow>
                  (case read_text fs p of
                     Inl e \<Rightarrow> Inl (LoadError p)
                   | Inr text \<Rightarrow> Inr (Some text, ''file:'' @ p))))
      else Inr (param_value, ''inline''))"

text \<open>\<^verbatim>\<open>parse_configuration(data, template)\<close>: every exception of the parser becomes a \<^verbatim>\<open>ValueError\<close>.\<close>

definition parse_configuration :: "env \<Rightarrow> string \<Rightarrow> string \<Rightarrow> exc + pyval" where
  "parse_configuration env data template =
     (case ttp_result env data template of
        Inl msg \<Rightarrow> Inl (ParseError msg)
      | Inr r \<Rightarrow> Inr r)"

subsection \<open>\<^verbatim>\<open>render_configuration\<close>\<close>

text \<open>
  The generator of line 288,
  \<^verbatim>\<open>any(str(value).startswith(key_ignore) for value in entry.values() for key_ignore in keys_ignore)\<close>.
  \<^verbatim>\<open>any\<close> stops at the first true element; an element that raises before that ends the
  whole expression. \<^verbatim>\<open>startswith\<close> takes a string (our values have no tuples).
\<close>

fun any_prefix :: "string \<Rightarrow> pyval list \<Rightarrow> exc + bool" where
  "any_prefix s [] = Inr False"
| "any_prefix s (PStr p # ks) = (if startswith s p then Inr True else any_prefix s ks)"
| "any_prefix s (k # ks) = Inl TypeError"

fun any_value :: "env \<Rightarrow> pyval list \<Rightarrow> pyval \<Rightarrow> exc + bool" where
  "any_value env [] keys_ignore = Inr False"
| "any_value env (v # vs) keys_ignore =
     (case py_iter keys_ignore of
        Inl e \<Rightarrow> Inl e
      | Inr ks \<Rightarrow>
          (case any_prefix (py_str env v) ks of
             Inl e \<Rightarrow> Inl e
           | Inr True \<Rightarrow> Inr True
           | Inr False \<Rightarrow> any_value env vs keys_ignore))"

text \<open>Lines 286 to 288: is this entry ignored? First the guard \<^verbatim>\<open>if keys_ignore:\<close>.\<close>

definition entry_ignored :: "env \<Rightarrow> pyval \<Rightarrow> pyval \<Rightarrow> exc + bool" where
  "entry_ignored env entry keys_ignore =
     (if py_truthy keys_ignore then
        (case py_values entry of
           Inl e \<Rightarrow> Inl e
         | Inr vs \<Rightarrow> any_value env vs keys_ignore)
      else Inr False)"

text \<open>
  The loop of lines 285 to 295 over the entries still to visit, with the three lists
  \<^verbatim>\<open>rendered_parts\<close>, \<^verbatim>\<open>ignored_instances\<close> and \<^verbatim>\<open>render_data\<close> it appends to.
\<close>

fun render_loop ::
  "env \<Rightarrow> compiled \<Rightarrow> pyval \<Rightarrow> pyval list \<Rightarrow> string list \<Rightarrow> pyval list \<Rightarrow> pyval list
    \<Rightarrow> exc + (string list \<times> pyval list \<times> pyval list)" where
  "render_loop env template keys_ignore [] rendered_parts ignored_instances render_data =
     Inr (rendered_parts, ignored_instances, render_data)"
| "render_loop env template keys_ignore (entry # rest) rendered_parts ignored_instances render_data =
     (case entry_ignored env entry keys_ignore of
        Inl e \<Rightarrow> Inl e
      | Inr True \<Rightarrow>
          render_loop env template keys_ignore rest
            rendered_parts (ignored_instances @ [entry]) render_data
      | Inr False \<Rightarrow>
          (case py_kwargs entry of
             Inl e \<Rightarrow> Inl e
           | Inr kw \<Rightarrow>
               (case template kw of
                  Inl msg \<Rightarrow> Inl (JinjaError msg)
                | Inr part \<Rightarrow>
                    render_loop env template keys_ignore rest
                      (rendered_parts @ [part]) ignored_instances (render_data @ [entry]))))"

text \<open>
  What \<^verbatim>\<open>render_configuration\<close> returns: line 283 returns the template text alone, line 298
  a tuple of three.
\<close>

datatype returned =
    Text string
  | Triple string "pyval list" "pyval list"

definition render_configuration :: "env \<Rightarrow> pyval \<Rightarrow> string \<Rightarrow> pyval \<Rightarrow> exc + returned" where
  "render_configuration env parsed_data context_template keys_ignore =
     (case Template env context_template of
        Inl msg \<Rightarrow> Inl (JinjaError msg)
      | Inr template \<Rightarrow>
          if \<not> py_truthy parsed_data then Inr (Text context_template)
          else
            (case py_iter parsed_data of
               Inl e \<Rightarrow> Inl e
             | Inr entries \<Rightarrow>
                 (case render_loop env template keys_ignore entries [] [] [] of
                    Inl e \<Rightarrow> Inl e
                  | Inr (rendered_parts, ignored_instances, render_data) \<Rightarrow>
                      Inr (Triple (str_join [CHR 0x0A] rendered_parts)
                             ignored_instances render_data))))"

subsection \<open>\<^verbatim>\<open>main\<close>\<close>

text \<open>
  \<^verbatim>\<open>module.params\<close> after the argument specification has been applied: the options of
  type \<^verbatim>\<open>str\<close> hold a string or \<^verbatim>\<open>None\<close>, \<^verbatim>\<open>keys_ignore\<close> is raw (any value, \<^verbatim>\<open>""\<close> by
  default). The fields carry the prefix \<open>param_\<close> because \<^verbatim>\<open>dest_path\<close> is also a key of
  the result.
\<close>

record params =
  param_config :: "string option"
  param_config_src :: "string option"
  param_template :: "string option"
  param_template_src :: "string option"
  param_dest_path :: "string option"
  param_keys_ignore :: pyval

text \<open>
  The dictionary \<^verbatim>\<open>result\<close>. \<^verbatim>\<open>source_used\<close> is flattened into its two entries; the keys
  \<^verbatim>\<open>ignored_instances\<close> and \<^verbatim>\<open>render_data\<close> are absent (\<open>None\<close>) until lines 366 and 367 set
  them.
\<close>

record result =
  changed :: bool
  rendered_config :: string
  config_source :: "string option"
  template_source :: "string option"
  dest_path :: "string option"
  ignored_instances :: "pyval option"
  render_data :: "pyval option"

text \<open>
  How a run ends: \<^verbatim>\<open>module.exit_json(**result)\<close>, or \<^verbatim>\<open>module.fail_json(msg=..., **result)\<close>
  with the fixed message of line 353 (\<open>NoValidData\<close>) or with \<^verbatim>\<open>str(e)\<close> of the exception
  caught at line 390. \<^verbatim>\<open>fail_json\<close> leaves the process (\<^verbatim>\<open>SystemExit\<close> is not an
  \<^verbatim>\<open>Exception\<close>), so nothing runs after it.
\<close>

datatype failure = NoValidData | Exception exc

datatype outcome =
    Exit_json result
  | Fail_json failure result

fun outcome_result :: "outcome \<Rightarrow> result" where
  "outcome_result (Exit_json r) = r"
| "outcome_result (Fail_json f r) = r"

fun failed :: "outcome \<Rightarrow> bool" where
  "failed (Exit_json r) = False"
| "failed (Fail_json f r) = True"

text \<open>Truth value of an option of type \<^verbatim>\<open>str\<close>: \<^verbatim>\<open>None\<close> and \<^verbatim>\<open>""\<close> are false.\<close>

definition str_truthy :: "string option \<Rightarrow> bool" where
  "str_truthy v = (case v of None \<Rightarrow> False | Some s \<Rightarrow> s \<noteq> [])"

text \<open>
  Lines 330 to 333, and again 338 to 341: the inline text when it is given and not empty,
  otherwise \<^verbatim>\<open>load_content(src, is_path=True)\<close>. With \<^verbatim>\<open>is_path\<close> that function returns
  the text of a file, never \<open>None\<close> (lemma \<open>load_content_path\<close> below), so the last
  branch is never taken.
\<close>

definition load_source :: "filesys \<Rightarrow> string option \<Rightarrow> string option \<Rightarrow> exc + (string \<times> string)" where
  "load_source fs inline src =
     (let from_file =
        (case load_content fs src True of
           Inl e \<Rightarrow> Inl e
         | Inr (Some text, source) \<Rightarrow> Inr (text, source)
         | Inr (None, source) \<Rightarrow> Inl TypeError)
      in
      case inline of
        None \<Rightarrow> from_file
      | Some text \<Rightarrow> if text = [] then from_file else Inr (text, ''inline''))"

text \<open>
  Line 356, \<^verbatim>\<open>parsed_raw[0][0] if isinstance(parsed_raw[0], list) else parsed_raw\<close>.
  Indexing an empty list or string raises \<^verbatim>\<open>IndexError\<close>, a dict has no key \<^verbatim>\<open>0\<close>
  (\<^verbatim>\<open>KeyError\<close>), the other values cannot be indexed (\<^verbatim>\<open>TypeError\<close>).
\<close>

fun normalise :: "pyval \<Rightarrow> exc + pyval" where
  "normalise (PList (PList (y # ys) # xs)) = Inr y"
| "normalise (PList (PList [] # xs)) = Inl IndexError"
| "normalise (PList (x # xs)) = Inr (PList (x # xs))"
| "normalise (PList []) = Inl IndexError"
| "normalise (PStr (c # cs)) = Inr (PStr (c # cs))"
| "normalise (PStr []) = Inl IndexError"
| "normalise (PDict kvs) = Inl KeyError"
| "normalise v = Inl TypeError"

text \<open>
  Line 360, \<^verbatim>\<open>rendered, ignored_instances, render_data = render_configuration(...)\<close>.
  A tuple of three unpacks into its components. A string unpacks character by character:
  it succeeds when the string has exactly three characters and raises \<^verbatim>\<open>ValueError\<close>
  otherwise.
\<close>

fun unpack3 :: "returned \<Rightarrow> exc + (string \<times> pyval \<times> pyval)" where
  "unpack3 (Triple r i d) = Inr (r, PList i, PList d)"
| "unpack3 (Text [a, b, c]) = Inr ([a], PStr [b], PStr [c])"
| "unpack3 (Text s) = Inl (UnpackError (length s))"

text \<open>
  \<^verbatim>\<open>main\<close>, from line 318 on (the module object exists, its argument checks have passed).
  \<open>check_mode\<close> is \<^verbatim>\<open>module.check_mode\<close>. The function returns how the run ended and the
  file system it leaves. The writer of lines 369 to 387 is inside the \<^verbatim>\<open>try\<close>: when the
  destination cannot be opened, the handler of line 390 ends the run in \<^verbatim>\<open>fail_json\<close>
  with the result as it stands, \<^verbatim>\<open>changed\<close> still false.
\<close>

definition main :: "env \<Rightarrow> params \<Rightarrow> bool \<Rightarrow> filesys \<Rightarrow> outcome \<times> filesys" where
  "main env p check_mode fs =
     (let result0 = \<lparr>changed = False, rendered_config = [], config_source = None,
                      template_source = None, dest_path = None,
                      ignored_instances = None, render_data = None\<rparr>
      in
      case load_source fs (param_config p) (param_config_src p) of
        Inl e \<Rightarrow> (Fail_json (Exception e) result0, fs)
      | Inr (config_content, config_origin) \<Rightarrow>
      let result1 = result0\<lparr>config_source := Some config_origin\<rparr> in
      case load_source fs (param_template p) (param_template_src p) of
        Inl e \<Rightarrow> (Fail_json (Exception e) result1, fs)
      | Inr (context_template, template_origin) \<Rightarrow>
      let result2 = result1\<lparr>template_source := Some template_origin\<rparr>;
          result3 = (if str_truthy (param_dest_path p)
                     then result2\<lparr>dest_path := param_dest_path p\<rparr> else result2)
      in
      case parse_configuration env config_content context_template of
        Inl e \<Rightarrow> (Fail_json (Exception e) result3, fs)
      | Inr parsed_raw \<Rightarrow>
      if \<not> py_truthy parsed_raw then (Fail_json NoValidData result3, fs)
      else
      case normalise parsed_raw of
        Inl e \<Rightarrow> (Fail_json (Exception e) result3, fs)
      | Inr parsed_data \<Rightarrow>
      case render_configuration env parsed_data context_template (param_keys_ignore p) of
        Inl e \<Rightarrow> (Fail_json (Exception e) result3, fs)
      | Inr ret \<Rightarrow>
      case unpack3 ret of
        Inl e \<Rightarrow> (Fail_json (Exception e) result3, fs)
      | Inr (rendered, ignored, kept) \<Rightarrow>
      let result4 = result3\<lparr>rendered_config := rendered,
                             ignored_instances := Some ignored, render_data := Some kept\<rparr>
      in
      if \<not> check_mode \<and> str_truthy (param_dest_path p) then
        (case param_dest_path p of
           None \<Rightarrow> (Exit_json result4, fs)
         | Some dest \<Rightarrow>
             (case stored fs dest of
                Some stored_text \<Rightarrow>
                  (case read_text fs dest of
                     Inl e \<Rightarrow> (Fail_json (Exception e) result4, fs)
                   | Inr current_content \<Rightarrow>
                       if current_content = rendered
                       then (Exit_json (result4\<lparr>changed := False\<rparr>), fs)
                       else
                         (case write_text fs dest rendered of
                            Inl e \<Rightarrow> (Fail_json (Exception e) result4, fs)
                          | Inr fs' \<Rightarrow> (Exit_json (result4\<lparr>changed := True\<rparr>), fs')))
              | None \<Rightarrow>
                  (case write_text fs dest rendered of
                     Inl e \<Rightarrow> (Fail_json (Exception e) result4, fs)
                   | Inr fs' \<Rightarrow> (Exit_json (result4\<lparr>changed := True\<rparr>), fs'))))
      else (Exit_json result4, fs))"

subsection \<open>The jinja2 templates the module is used with\<close>

text \<open>
  \<^verbatim>\<open>render_configuration\<close> builds its template with \<^verbatim>\<open>Template(context_template)\<close> and
  nothing else: the environment is jinja2's default one, whose undefined type is
  \<^verbatim>\<open>Undefined\<close> (a name without a value prints as the empty text; \<^verbatim>\<open>StrictUndefined\<close> is
  not selected anywhere in the module). The definitions below describe that library on the
  templates of the module's documentation: literal text and placeholders
  \<^verbatim>\<open>{{ name }}\<close>. A source is outside this fragment, and \<open>jinja2_lex\<close> gives \<open>None\<close>, when
  it opens a block \<^verbatim>\<open>{%\<close> or a comment \<^verbatim>\<open>{#\<close>, leaves a \<^verbatim>\<open>{{\<close>
  open, or has between \<^verbatim>\<open>{{\<close> and \<^verbatim>\<open>}}\<close> anything but one identifier with blanks around it;
  the identifiers jinja2 reads as constants, operators or default globals are excluded too.
\<close>

datatype piece = Data string | Var string

definition reserved_names :: "string list" where
  "reserved_names =
     [''true'', ''false'', ''none'', ''True'', ''False'', ''None'',
      ''not'', ''and'', ''or'', ''in'', ''is'', ''if'', ''else'',
      ''range'', ''dict'', ''lipsum'', ''cycler'', ''joiner'', ''namespace'', ''self'']"

definition ident_start :: "char \<Rightarrow> bool" where
  "ident_start c = (c \<in> set ''abcdefghijklmnopqrstuvwxyzABCDEFGHIJKLMNOPQRSTUVWXYZ_'')"

definition ident_char :: "char \<Rightarrow> bool" where
  "ident_char c = (ident_start c \<or> c \<in> set ''0123456789'')"

definition blank :: "char \<Rightarrow> bool" where
  "blank c = (c = CHR '' '' \<or> c = CHR 0x09)"

text \<open>The text between \<^verbatim>\<open>{{\<close> and \<^verbatim>\<open>}}\<close>, read as one name.\<close>

definition var_name :: "string \<Rightarrow> string option" where
  "var_name inner =
     (let name = rev (dropWhile blank (rev (dropWhile blank inner))) in
      case name of
        [] \<Rightarrow> None
      | c # cs \<Rightarrow>
          if ident_start c \<and> list_all ident_char cs \<and> name \<notin> set reserved_names
          then Some name else None)"

text \<open>
  The scanner: \<open>in_var\<close> tells whether a \<^verbatim>\<open>{{\<close> is open, \<open>acc\<close> is the text read since the
  last delimiter.
\<close>

fun jinja2_scan :: "bool \<Rightarrow> string \<Rightarrow> string \<Rightarrow> piece list option" where
  "jinja2_scan in_var acc [] = (if in_var then None else Some [Data acc])"
| "jinja2_scan in_var acc [a] = (if in_var then None else Some [Data (acc @ [a])])"
| "jinja2_scan in_var acc (a # b # cs) =
     (if in_var then
        (if a = CHR ''}'' \<and> b = CHR ''}'' then
           (case var_name acc of
              None \<Rightarrow> None
            | Some name \<Rightarrow> map_option ((#) (Var name)) (jinja2_scan False [] cs))
         else jinja2_scan True (acc @ [a]) (b # cs))
      else
        (if a = CHR ''{'' \<and> b = CHR ''{'' then
           map_option ((#) (Data acc)) (jinja2_scan True [] cs)
         else if a = CHR ''{'' \<and> (b = CHR ''%'' \<or> b = CHR ''#'') then None
         else jinja2_scan False (acc @ [a]) (b # cs)))"

text \<open>
  The lexer of jinja2 first turns every line ending of the source into \<^verbatim>\<open>\n\<close> and drops
  one newline at the end of the source (\<^verbatim>\<open>keep_trailing_newline\<close> is off).
\<close>

definition strip_trailing_newline :: "string \<Rightarrow> string" where
  "strip_trailing_newline s = (if s \<noteq> [] \<and> last s = CHR 0x0A then butlast s else s)"

definition jinja2_lex :: "string \<Rightarrow> piece list option" where
  "jinja2_lex source = jinja2_scan False [] (strip_trailing_newline (universal_newlines source))"

text \<open>
  Rendering with the default \<^verbatim>\<open>Undefined\<close>: a name that the keyword arguments do not bind
  prints as the empty text, a bound name prints as \<^verbatim>\<open>str\<close> of its value.
\<close>

fun jinja2_output :: "(pyval \<Rightarrow> string) \<Rightarrow> kwargs \<Rightarrow> piece list \<Rightarrow> string" where
  "jinja2_output str kw [] = []"
| "jinja2_output str kw (Data s # ps) = s @ jinja2_output str kw ps"
| "jinja2_output str kw (Var name # ps) =
     (case map_of kw name of None \<Rightarrow> [] | Some v \<Rightarrow> str v) @ jinja2_output str kw ps"

text \<open>
  \<^verbatim>\<open>template.render(**kwargs)\<close>: \<^verbatim>\<open>render(self, *args, **kwargs)\<close> refuses a keyword called
  \<^verbatim>\<open>self\<close> (\<^verbatim>\<open>TypeError\<close>: multiple values for the argument).
\<close>

definition jinja2_render :: "(pyval \<Rightarrow> string) \<Rightarrow> piece list \<Rightarrow> compiled" where
  "jinja2_render str ps kw =
     (if ''self'' \<in> fst ` set kw then Inl ''render() got multiple values for argument self''
      else Inr (jinja2_output str kw ps))"

definition jinja2_Template :: "(pyval \<Rightarrow> string) \<Rightarrow> string \<Rightarrow> string + compiled" where
  "jinja2_Template str source =
     (case jinja2_lex source of
        None \<Rightarrow> Inl ''source outside the fragment described here''
      | Some ps \<Rightarrow> Inr (jinja2_render str ps))"

text \<open>
  An environment built on this, for the scenarios: the parser returns the given value
  whatever its input; a string is its own text and \<^verbatim>\<open>str\<close> of \<^verbatim>\<open>None\<close>, \<^verbatim>\<open>True\<close> and
  \<^verbatim>\<open>False\<close> is their name. The scenarios hold no number and no container as a field
  value; on those \<open>str_const\<close> is not Python's \<^verbatim>\<open>str\<close> (it gives the empty text).
\<close>

fun str_const :: "pyval \<Rightarrow> string" where
  "str_const (PStr s) = s"
| "str_const PNone = ''None''"
| "str_const (PBool True) = ''True''"
| "str_const (PBool False) = ''False''"
| "str_const v = []"

definition jinja2_env :: "pyval \<Rightarrow> env" where
  "jinja2_env parsed =
     \<lparr>ttp_result = (\<lambda>data template. Inr parsed),
      Template = jinja2_Template str_const,
      str_obj = str_const\<rparr>"

subsection \<open>Notions used to state the properties\<close>

text \<open>
  The rule of the filter in the words of the specification: some field value of the record,
  taken as text, starts with some ignore-prefix.
\<close>

definition starts_with_some :: "env \<Rightarrow> string list \<Rightarrow> pyval \<Rightarrow> bool" where
  "starts_with_some env prefixes entry =
     (case entry of
        PDict kvs \<Rightarrow> (\<exists>v\<in>set (map snd kvs). \<exists>p\<in>set prefixes. startswith (py_str env v) p)
      | _ \<Rightarrow> False)"

text \<open>The text one kept record contributes: \<^verbatim>\<open>template.render(**entry)\<close> where it succeeds.\<close>

definition part_of :: "compiled \<Rightarrow> pyval \<Rightarrow> string" where
  "part_of tm entry =
     (case py_kwargs entry of
        Inl e \<Rightarrow> []
      | Inr kw \<Rightarrow> (case tm kw of Inl msg \<Rightarrow> [] | Inr part \<Rightarrow> part))"

text \<open>
  The scenarios of the specification: a configuration with the two blocks
  \<^verbatim>\<open>interface Gi0/0\<close> and \<^verbatim>\<open>interface Gi0/1\<close>, the value extracted from it (one list of
  records for the one template and the one input), and a run with inline sources that
  names the destination \<^verbatim>\<open>out.cfg\<close>.
\<close>

definition scenario_config :: string where
  "scenario_config = ''interface Gi0/0'' @ [CHR 0x0A] @ ''interface Gi0/1''"

definition scenario_records :: "pyval list" where
  "scenario_records = [PDict [(''ifname'', PStr ''Gi0/0'')], PDict [(''ifname'', PStr ''Gi0/1'')]]"

definition scenario_raw :: pyval where
  "scenario_raw = PList [PList [PList scenario_records]]"

definition scenario_params :: "string \<Rightarrow> pyval \<Rightarrow> params" where
  "scenario_params template_text ignore =
     \<lparr>param_config = Some scenario_config, param_config_src = None,
      param_template = Some template_text, param_template_src = None,
      param_dest_path = Some ''out.cfg'', param_keys_ignore = ignore\<rparr>"


text \<open>What the parser returns when no line of the configuration matches the template.\<close>

definition no_match :: pyval where
  "no_match = PList [PList [PDict []]]"

text \<open>
  File systems for the scenarios: the working directory with no file in it, where every
  path can be created; the same with the file \<^verbatim>\<open>out.cfg\<close> holding the given text; and a
  destination in a directory that does not exist, so that it cannot be opened.
\<close>

definition empty_dir :: filesys where
  "empty_dir = \<lparr>stored = Map.empty, may_read = (\<lambda>p. True), may_write = (\<lambda>p. True)\<rparr>"

definition with_out_cfg :: "string \<Rightarrow> filesys" where
  "with_out_cfg text = empty_dir\<lparr>stored := [''out.cfg'' \<mapsto> text]\<rparr>"

definition no_such_dir :: filesys where
  "no_such_dir = empty_dir\<lparr>may_write := (\<lambda>p. p \<noteq> ''nodir/out.cfg'')\<rparr>"

section \<open>Properties\<close>

subsection \<open>Loading\<close>

lemma load_content_path: "load_content fs v True \<noteq> Inr (None, s)"
  by (simp add: load_content_def split: option.splits sum.splits)

subsection \<open>The filter\<close>

lemma any_prefix_strs: "any_prefix s (map PStr ps) = Inr (\<exists>p\<in>set ps. startswith s p)"
  by (induction ps) auto

lemma any_value_strs:
  "py_iter ki = Inr (map PStr ps) \<Longrightarrow>
   any_value env vs ki = Inr (\<exists>v\<in>set vs. \<exists>p\<in>set ps. startswith (py_str env v) p)"
  by (induction vs) (auto simp: any_prefix_strs split: bool.splits)

lemma entry_ignored_falsy: "\<not> py_truthy ki \<Longrightarrow> entry_ignored env e ki = Inr False"
  by (simp add: entry_ignored_def)

lemma entry_ignored_dict:
  "py_iter ki = Inr (map PStr ps) \<Longrightarrow> py_truthy ki \<Longrightarrow>
   entry_ignored env (PDict kvs) ki = Inr (starts_with_some env ps (PDict kvs))"
  by (simp add: entry_ignored_def starts_with_some_def any_value_strs)

lemma entry_ignored_list:
  "entry_ignored env (PDict kvs) (PList (map PStr ps)) = Inr (starts_with_some env ps (PDict kvs))"
proof (cases "ps = []")
  case True
  then show ?thesis by (simp add: entry_ignored_def starts_with_some_def)
next
  case False
  then show ?thesis by (intro entry_ignored_dict) auto
qed

lemma entry_ignored_str:
  "entry_ignored env (PDict kvs) (PStr s) =
     Inr (starts_with_some env (map (\<lambda>c. [c]) s) (PDict kvs))"
proof (cases "s = []")
  case True
  then show ?thesis by (simp add: entry_ignored_def starts_with_some_def)
next
  case False
  then show ?thesis by (intro entry_ignored_dict) (auto simp: comp_def)
qed

subsection \<open>The loop of \<^verbatim>\<open>render_configuration\<close>\<close>

text \<open>
  When every entry is a dict, the test of the filter answers \<open>P\<close> on it and the template
  renders the entries that are not ignored, the loop returns the two partitions in the
  order of the entries, and one rendered part per kept entry.
\<close>

lemma render_loop_partition:
  assumes "\<forall>e\<in>set entries. \<exists>kvs. e = PDict kvs \<and> entry_ignored env e ki = Inr (P e)
             \<and> (\<not> P e \<longrightarrow> (\<exists>part. tm kvs = Inr part))"
  shows "render_loop env tm ki entries rp ii rd =
           Inr (rp @ map (part_of tm) (filter (\<lambda>e. \<not> P e) entries),
                ii @ filter P entries, rd @ filter (\<lambda>e. \<not> P e) entries)"
  using assms
proof (induction entries arbitrary: rp ii rd)
  case Nil
  then show ?case by simp
next
  case (Cons e es)
  then obtain kvs where e: "e = PDict kvs" "entry_ignored env e ki = Inr (P e)"
    "\<not> P e \<longrightarrow> (\<exists>part. tm kvs = Inr part)" by auto
  have rest: "\<forall>e\<in>set es. \<exists>kvs. e = PDict kvs \<and> entry_ignored env e ki = Inr (P e)
             \<and> (\<not> P e \<longrightarrow> (\<exists>part. tm kvs = Inr part))" using Cons.prems by simp
  show ?case
  proof (cases "P e")
    case True
    then show ?thesis using e Cons.IH[OF rest] by simp
  next
    case False
    then obtain part where "tm kvs = Inr part" using e by auto
    then show ?thesis using False e Cons.IH[OF rest] by (simp add: part_of_def)
  qed
qed

lemma render_configuration_partition:
  assumes "Template env t = Inr tm" "entries \<noteq> []"
    and "\<forall>e\<in>set entries. \<exists>kvs. e = PDict kvs \<and> entry_ignored env e ki = Inr (P e)
             \<and> (\<not> P e \<longrightarrow> (\<exists>part. tm kvs = Inr part))"
  shows "render_configuration env (PList entries) t ki =
           Inr (Triple (str_join [CHR 0x0A] (map (part_of tm) (filter (\<lambda>e. \<not> P e) entries)))
                  (filter P entries) (filter (\<lambda>e. \<not> P e) entries))"
  using assms(1,2) render_loop_partition[OF assms(3), of "[]" "[]" "[]"]
  by (simp add: render_configuration_def)


subsection \<open>Runs of \<^verbatim>\<open>main\<close>\<close>

lemma main_failed_fs: "failed (fst (main env p cm fs)) \<Longrightarrow> snd (main env p cm fs) = fs"
  by (auto simp: main_def Let_def split: sum.splits prod.splits option.splits if_splits)

text \<open>
  A run whose stages succeed up to the unpacking of line 360: the result it reports holds
  the rendered text and the two lists, whether or not the writer then succeeds; and the
  run does not fail when there is nothing to write or the destination can be opened.
\<close>

lemma main_reports:
  assumes "load_source fs (param_config p) (param_config_src p) = Inr (c, cs)"
    and "load_source fs (param_template p) (param_template_src p) = Inr (t, ts)"
    and "parse_configuration env c t = Inr raw" "py_truthy raw"
    and "normalise raw = Inr parsed_data"
    and "render_configuration env parsed_data t (param_keys_ignore p) = Inr ret"
    and "unpack3 ret = Inr (rendered, ignored, kept)"
  shows "rendered_config (outcome_result (fst (main env p cm fs))) = rendered
       \<and> ignored_instances (outcome_result (fst (main env p cm fs))) = Some ignored
       \<and> render_data (outcome_result (fst (main env p cm fs))) = Some kept"
  using assms
  by (auto simp: main_def Let_def split: option.splits sum.splits)



subsection \<open>Unpacking and undefined names\<close>

lemma unpack3_other: "length s \<noteq> 3 \<Longrightarrow> unpack3 (Text s) = Inl (UnpackError (length s))"
  by (induction "Text s" rule: unpack3.induct) auto

lemma unpack3_three:
  "length s = 3 \<Longrightarrow> unpack3 (Text s) = Inr ([s ! 0], PStr [s ! 1], PStr [s ! 2])"
  by (induction "Text s" rule: unpack3.induct) auto



section \<open>The claims\<close>







text \<open>
  C3. On a non-empty list of records (dicts) with a list of prefix strings as
  \<^verbatim>\<open>keys_ignore\<close>, where the template renders the records that are not ignored,
  \<^verbatim>\<open>render_configuration\<close> returns the two partitions: the ignored records are exactly
  those of which some field value, taken as text, starts with some prefix, the kept records
  are exactly the others, both in the order of the list; a record is in one of the two and
  not in both; with no prefix every record is kept.
\<close>

theorem C3_filter_partition:
  assumes "Template env t = Inr tm" and "entries \<noteq> []"
    and "\<forall>e\<in>set entries. \<exists>kvs. e = PDict kvs
           \<and> (\<not> starts_with_some env prefixes e \<longrightarrow> (\<exists>part. tm kvs = Inr part))"
  shows "render_configuration env (PList entries) t (PList (map PStr prefixes))
           = Inr (Triple
               (str_join [CHR 0x0A]
                  (map (part_of tm) (filter (\<lambda>e. \<not> starts_with_some env prefixes e) entries)))
               (filter (starts_with_some env prefixes) entries)
               (filter (\<lambda>e. \<not> starts_with_some env prefixes e) entries))
       \<and> (\<forall>e\<in>set entries.
            (e \<in> set (filter (starts_with_some env prefixes) entries))
              \<noteq> (e \<in> set (filter (\<lambda>e. \<not> starts_with_some env prefixes e) entries)))
       \<and> (prefixes = [] \<longrightarrow>
            filter (\<lambda>e. \<not> starts_with_some env prefixes e) entries = entries
            \<and> filter (starts_with_some env prefixes) entries = [])"
proof -
  have each: "\<forall>e\<in>set entries. \<exists>kvs. e = PDict kvs
      \<and> entry_ignored env e (PList (map PStr prefixes)) = Inr (starts_with_some env prefixes e)
      \<and> (\<not> starts_with_some env prefixes e \<longrightarrow> (\<exists>part. tm kvs = Inr part))"
  proof
    fix e assume "e \<in> set entries"
    then obtain kvs where "e = PDict kvs"
      "\<not> starts_with_some env prefixes e \<longrightarrow> (\<exists>part. tm kvs = Inr part)"
      using assms(3) by blast
    then show "\<exists>kvs. e = PDict kvs
      \<and> entry_ignored env e (PList (map PStr prefixes)) = Inr (starts_with_some env prefixes e)
      \<and> (\<not> starts_with_some env prefixes e \<longrightarrow> (\<exists>part. tm kvs = Inr part))"
      using entry_ignored_list[of env kvs prefixes] by simp
  qed
  have none: "prefixes = [] \<longrightarrow> (\<forall>e. \<not> starts_with_some env prefixes e)"
    by (auto simp: starts_with_some_def split: pyval.splits)
  show ?thesis
    using render_configuration_partition[OF assms(1,2) each] none by auto
qed

text \<open>
  C3 on the scenario: with the prefix \<^verbatim>\<open>Gi0/0\<close> the first record is ignored and the
  second is kept and rendered.
\<close>

theorem C3_witness:
  "Template (jinja2_env scenario_raw) ''interface {{ ifname }}''
     = Inr (jinja2_render str_const [Data ''interface '', Var ''ifname'', Data []])
   \<and> scenario_records \<noteq> []
   \<and> render_configuration (jinja2_env scenario_raw) (PList scenario_records)
       ''interface {{ ifname }}'' (PList (map PStr [''Gi0/0'']))
     = Inr (Triple ''interface Gi0/1'' [PDict [(''ifname'', PStr ''Gi0/0'')]]
              [PDict [(''ifname'', PStr ''Gi0/1'')]])"
proof -
  let ?env = "jinja2_env scenario_raw"
  let ?t = "''interface {{ ifname }}''"
  let ?tm = "jinja2_render str_const [Data ''interface '', Var ''ifname'', Data []]"
  have a: "Template ?env ?t = Inr ?tm"
    by (simp add: jinja2_env_def jinja2_Template_def jinja2_lex_def strip_trailing_newline_def
        var_name_def blank_def ident_start_def ident_char_def reserved_names_def)
  have b: "scenario_records \<noteq> []" by (simp add: scenario_records_def)
  have c: "\<forall>e\<in>set scenario_records. \<exists>kvs. e = PDict kvs
           \<and> (\<not> starts_with_some ?env [''Gi0/0''] e \<longrightarrow> (\<exists>part. ?tm kvs = Inr part))"
    by (simp add: scenario_records_def jinja2_render_def)
  have d: "starts_with_some ?env [''Gi0/0''] (PDict [(''ifname'', PStr ''Gi0/0'')])"
    "\<not> starts_with_some ?env [''Gi0/0''] (PDict [(''ifname'', PStr ''Gi0/1'')])"
    by (simp_all add: starts_with_some_def py_str_def startswith_def)
  have e: "part_of ?tm (PDict [(''ifname'', PStr ''Gi0/1'')]) = ''interface Gi0/1''"
    by (simp add: part_of_def jinja2_render_def)
  from C3_filter_partition[OF a b c]
  show ?thesis using a b d e by (simp add: scenario_records_def)
qed

text \<open>
  C4 (as amended). In check mode the block of lines 369 to 387 is skipped as a whole: the
  file system is left as it was, and \<^verbatim>\<open>changed\<close> is reported false whatever a run
  without check mode would have reported.
\<close>

theorem C4_check_mode:
  "snd (main env p True fs) = fs \<and> \<not> changed (outcome_result (fst (main env p True fs)))"
  by (auto simp: main_def Let_def split: sum.splits prod.splits option.splits if_splits)

text \<open>
  C4, a run where the claim fails: the destination does not exist; in check mode the run
  reports \<^verbatim>\<open>changed\<close> false, without check mode the same inputs report it true.
\<close>

theorem C4_counterexample:
  "changed (outcome_result (fst (main (jinja2_env scenario_raw)
      (scenario_params ''interface {{ ifname }}'' (PStr [])) False empty_dir)))
   \<and> \<not> changed (outcome_result (fst (main (jinja2_env scenario_raw)
      (scenario_params ''interface {{ ifname }}'' (PStr [])) True empty_dir)))"
  by code_simp

text \<open>C4, the amended statement on that run in check mode.\<close>

theorem C4_witness:
  "snd (main (jinja2_env scenario_raw)
      (scenario_params ''interface {{ ifname }}'' (PStr [])) True empty_dir) = empty_dir
   \<and> \<not> changed (outcome_result (fst (main (jinja2_env scenario_raw)
      (scenario_params ''interface {{ ifname }}'' (PStr [])) True empty_dir)))"
  using C4_check_mode[of "jinja2_env scenario_raw"
      "scenario_params ''interface {{ ifname }}'' (PStr [])" empty_dir]
  by simp

text \<open>
  C5 (as amended). A run without check mode that names a destination and whose stages
  succeed with a rendered text. When the path does not exist and can be opened for
  writing, the rendered text is written there and \<^verbatim>\<open>changed\<close> is true. When the file
  exists, can be read, and its content read in text mode (every \<^verbatim>\<open>\r\n\<close> and \<^verbatim>\<open>\r\<close> taken
  as \<^verbatim>\<open>\n\<close>) is the rendered text, nothing is written and \<^verbatim>\<open>changed\<close> is false. When it
  exists, can be read, its content so read is another text and it can be opened for
  writing, it is overwritten with the rendered text and \<^verbatim>\<open>changed\<close> is true. When the
  destination cannot be opened, the run ends in \<^verbatim>\<open>fail_json\<close> with \<^verbatim>\<open>changed\<close> false and
  nothing is written.
\<close>

theorem C5_writer:
  assumes "load_source fs (param_config p) (param_config_src p) = Inr (c, cs)"
    and "load_source fs (param_template p) (param_template_src p) = Inr (t, ts)"
    and "parse_configuration env c t = Inr raw" and "py_truthy raw"
    and "normalise raw = Inr parsed_data"
    and "render_configuration env parsed_data t (param_keys_ignore p) = Inr ret"
    and "unpack3 ret = Inr (rendered, ignored, kept)"
    and "param_dest_path p = Some dest" and "dest \<noteq> []"
  shows "rendered_config (outcome_result (fst (main env p False fs))) = rendered
       \<and> (stored fs dest = None \<and> may_write fs dest \<longrightarrow>
            \<not> failed (fst (main env p False fs))
            \<and> changed (outcome_result (fst (main env p False fs)))
            \<and> snd (main env p False fs) = fs\<lparr>stored := (stored fs)(dest \<mapsto> rendered)\<rparr>)
       \<and> (\<forall>current. stored fs dest = Some current \<and> may_read fs dest
              \<and> universal_newlines current = rendered \<longrightarrow>
            \<not> failed (fst (main env p False fs))
            \<and> \<not> changed (outcome_result (fst (main env p False fs)))
            \<and> snd (main env p False fs) = fs)
       \<and> (\<forall>current. stored fs dest = Some current \<and> may_read fs dest
              \<and> universal_newlines current \<noteq> rendered \<and> may_write fs dest \<longrightarrow>
            \<not> failed (fst (main env p False fs))
            \<and> changed (outcome_result (fst (main env p False fs)))
            \<and> snd (main env p False fs) = fs\<lparr>stored := (stored fs)(dest \<mapsto> rendered)\<rparr>)
       \<and> ((stored fs dest = None \<and> \<not> may_write fs dest)
           \<or> (stored fs dest \<noteq> None \<and> \<not> may_read fs dest)
           \<or> (\<exists>current. stored fs dest = Some current \<and> may_read fs dest
                 \<and> universal_newlines current \<noteq> rendered \<and> \<not> may_write fs dest) \<longrightarrow>
            failed (fst (main env p False fs))
            \<and> \<not> changed (outcome_result (fst (main env p False fs)))
            \<and> snd (main env p False fs) = fs)"
proof (intro conjI impI allI)
  show "rendered_config (outcome_result (fst (main env p False fs))) = rendered"
    using main_reports[OF assms(1-7)] by simp
next
  assume "stored fs dest = None \<and> may_write fs dest"
  then have "main env p False fs =
      (Exit_json \<lparr>changed = True, rendered_config = rendered, config_source = Some cs,
         template_source = Some ts, dest_path = Some dest,
         ignored_instances = Some ignored, render_data = Some kept\<rparr>,
       fs\<lparr>stored := (stored fs)(dest \<mapsto> rendered)\<rparr>)"
    using assms by (simp add: main_def Let_def str_truthy_def write_text_def)
  then show "\<not> failed (fst (main env p False fs))"
    "changed (outcome_result (fst (main env p False fs)))"
    "snd (main env p False fs) = fs\<lparr>stored := (stored fs)(dest \<mapsto> rendered)\<rparr>"
    by simp_all
next
  fix current
  assume "stored fs dest = Some current \<and> may_read fs dest
              \<and> universal_newlines current = rendered"
  then have "main env p False fs =
      (Exit_json \<lparr>changed = False, rendered_config = rendered, config_source = Some cs,
         template_source = Some ts, dest_path = Some dest,
         ignored_instances = Some ignored, render_data = Some kept\<rparr>, fs)"
    using assms by (auto simp: main_def Let_def str_truthy_def read_text_def)
  then show "\<not> failed (fst (main env p False fs))"
    "\<not> changed (outcome_result (fst (main env p False fs)))"
    "snd (main env p False fs) = fs"
    by simp_all
next
  fix current
  assume "stored fs dest = Some current \<and> may_read fs dest
              \<and> universal_newlines current \<noteq> rendered \<and> may_write fs dest"
  then have "main env p False fs =
      (Exit_json \<lparr>changed = True, rendered_config = rendered, config_source = Some cs,
         template_source = Some ts, dest_path = Some dest,
         ignored_instances = Some ignored, render_data = Some kept\<rparr>,
       fs\<lparr>stored := (stored fs)(dest \<mapsto> rendered)\<rparr>)"
    using assms by (simp add: main_def Let_def str_truthy_def read_text_def write_text_def)
  then show "\<not> failed (fst (main env p False fs))"
    "changed (outcome_result (fst (main env p False fs)))"
    "snd (main env p False fs) = fs\<lparr>stored := (stored fs)(dest \<mapsto> rendered)\<rparr>"
    by simp_all
next
  assume "(stored fs dest = None \<and> \<not> may_write fs dest)
           \<or> (stored fs dest \<noteq> None \<and> \<not> may_read fs dest)
           \<or> (\<exists>current. stored fs dest = Some current \<and> may_read fs dest
                 \<and> universal_newlines current \<noteq> rendered \<and> \<not> may_write fs dest)"
  then have "main env p False fs =
      (Fail_json (Exception OSError)
         \<lparr>changed = False, rendered_config = rendered, config_source = Some cs,
          template_source = Some ts, dest_path = Some dest,
          ignored_instances = Some ignored, render_data = Some kept\<rparr>, fs)"
    using assms
    by (auto simp: main_def Let_def str_truthy_def read_text_def write_text_def)
  then show "failed (fst (main env p False fs))"
    "\<not> changed (outcome_result (fst (main env p False fs)))"
    "snd (main env p False fs) = fs"
    by simp_all
qed

text \<open>
  C5, two runs of scenario A where the claim fails. The destination holds the rendered
  text with the line ending \<^verbatim>\<open>\r\n\<close>: it is not identical byte for byte, and yet the run
  reports \<^verbatim>\<open>changed\<close> false and leaves it. The destination is a path in a directory that
  does not exist: the run ends in \<^verbatim>\<open>fail_json\<close> with \<^verbatim>\<open>changed\<close> false and nothing is
  written.
\<close>

theorem C5_counterexample:
  "''interface Gi0/0'' @ [CHR 0x0D, CHR 0x0A] @ ''interface Gi0/1''
     \<noteq> ''interface Gi0/0'' @ [CHR 0x0A] @ ''interface Gi0/1''
   \<and> fst (main (jinja2_env scenario_raw) (scenario_params ''interface {{ ifname }}'' (PStr []))
        False (with_out_cfg (''interface Gi0/0'' @ [CHR 0x0D, CHR 0x0A] @ ''interface Gi0/1'')))
     = Exit_json \<lparr>changed = False,
         rendered_config = ''interface Gi0/0'' @ [CHR 0x0A] @ ''interface Gi0/1'',
         config_source = Some ''inline'', template_source = Some ''inline'',
         dest_path = Some ''out.cfg'', ignored_instances = Some (PList []),
         render_data = Some (PList scenario_records)\<rparr>
   \<and> stored (snd (main (jinja2_env scenario_raw)
        (scenario_params ''interface {{ ifname }}'' (PStr []))
        False (with_out_cfg (''interface Gi0/0'' @ [CHR 0x0D, CHR 0x0A] @ ''interface Gi0/1''))))
        ''out.cfg''
     = Some (''interface Gi0/0'' @ [CHR 0x0D, CHR 0x0A] @ ''interface Gi0/1'')
   \<and> stored no_such_dir ''nodir/out.cfg'' = None
   \<and> fst (main (jinja2_env scenario_raw)
        ((scenario_params ''interface {{ ifname }}'' (PStr []))
           \<lparr>param_dest_path := Some ''nodir/out.cfg''\<rparr>) False no_such_dir)
     = Fail_json (Exception OSError)
         \<lparr>changed = False,
          rendered_config = ''interface Gi0/0'' @ [CHR 0x0A] @ ''interface Gi0/1'',
          config_source = Some ''inline'', template_source = Some ''inline'',
          dest_path = Some ''nodir/out.cfg'', ignored_instances = Some (PList []),
          render_data = Some (PList scenario_records)\<rparr>
   \<and> stored (snd (main (jinja2_env scenario_raw)
        ((scenario_params ''interface {{ ifname }}'' (PStr []))
           \<lparr>param_dest_path := Some ''nodir/out.cfg''\<rparr>) False no_such_dir))
        ''nodir/out.cfg'' = None"
  by code_simp

text \<open>
  C5, the amended statement on scenario A: the destination is absent and is created with
  the rendered text; the destination holds \<^verbatim>\<open>old\<close> and is overwritten with it.
\<close>

theorem C5_witness:
  "stored empty_dir ''out.cfg'' = None
   \<and> changed (outcome_result (fst (main (jinja2_env scenario_raw)
        (scenario_params ''interface {{ ifname }}'' (PStr [])) False empty_dir)))
   \<and> snd (main (jinja2_env scenario_raw)
        (scenario_params ''interface {{ ifname }}'' (PStr [])) False empty_dir)
     = empty_dir\<lparr>stored := (stored empty_dir)(''out.cfg'' \<mapsto>
         ''interface Gi0/0'' @ [CHR 0x0A] @ ''interface Gi0/1'')\<rparr>
   \<and> stored (with_out_cfg ''old'') ''out.cfg'' = Some ''old''
   \<and> changed (outcome_result (fst (main (jinja2_env scenario_raw)
        (scenario_params ''interface {{ ifname }}'' (PStr [])) False (with_out_cfg ''old''))))
   \<and> snd (main (jinja2_env scenario_raw)
        (scenario_params ''interface {{ ifname }}'' (PStr [])) False (with_out_cfg ''old''))
     = (with_out_cfg ''old'')\<lparr>stored := (stored (with_out_cfg ''old''))(''out.cfg'' \<mapsto>
         ''interface Gi0/0'' @ [CHR 0x0A] @ ''interface Gi0/1'')\<rparr>"
proof -
  let ?env = "jinja2_env scenario_raw"
  let ?t = "''interface {{ ifname }}''"
  let ?p = "scenario_params ?t (PStr [])"
  let ?r = "''interface Gi0/0'' @ [CHR 0x0A] @ ''interface Gi0/1''"
  let ?ret = "Triple ?r [] scenario_records"
  have l1: "load_source fs (param_config ?p) (param_config_src ?p)
              = Inr (scenario_config, ''inline'')" for fs
    by (simp add: load_source_def scenario_params_def scenario_config_def)
  have l2: "load_source fs (param_template ?p) (param_template_src ?p)
              = Inr (?t, ''inline'')" for fs
    by (simp add: load_source_def scenario_params_def)
  have pr: "parse_configuration ?env scenario_config ?t = Inr scenario_raw"
    by (simp add: parse_configuration_def jinja2_env_def)
  have raw: "py_truthy scenario_raw" "normalise scenario_raw = Inr (PList scenario_records)"
    by (simp_all add: scenario_raw_def scenario_records_def)
  have rc: "render_configuration ?env (PList scenario_records) ?t (param_keys_ignore ?p)
              = Inr ?ret"
    by code_simp
  have un: "unpack3 ?ret = Inr (?r, PList [], PList scenario_records)" by simp
  have d: "param_dest_path ?p = Some ''out.cfg''" "''out.cfg'' \<noteq> []"
    by (simp_all add: scenario_params_def)
  have e: "stored empty_dir ''out.cfg'' = None" "may_write empty_dir ''out.cfg''"
    by (simp_all add: empty_dir_def)
  have f: "stored (with_out_cfg ''old'') ''out.cfg'' = Some ''old''"
    "may_read (with_out_cfg ''old'') ''out.cfg''" "may_write (with_out_cfg ''old'') ''out.cfg''"
    "universal_newlines ''old'' \<noteq> ?r"
    by (simp_all add: with_out_cfg_def empty_dir_def)
  from C5_writer[OF l1 l2 pr raw rc un d, of empty_dir]
       C5_writer[OF l1 l2 pr raw rc un d, of "with_out_cfg ''old''"]
  show ?thesis using e f by simp
qed

text \<open>
  C6. The claim: a second run on the same input reports \<^verbatim>\<open>changed\<close> false and leaves the
  file. The module compares before it writes, but it reads the file in text mode, where
  a carriage return comes back as a newline, and writes the text as it is. On the run
  below the rendered text is a carriage return (nothing is extracted and the template
  text \<^verbatim>\<open>\rbc\<close> unpacks into its three characters): the first run creates the file, and
  the second run finds another text in it, writes it again and reports \<^verbatim>\<open>changed\<close> true.
\<close>

theorem C6_carriage_return:
  "fst (main (jinja2_env no_match)
         (scenario_params [CHR 0x0D, CHR ''b'', CHR ''c''] (PStr [])) False empty_dir)
   = Exit_json \<lparr>changed = True, rendered_config = [CHR 0x0D],
       config_source = Some ''inline'', template_source = Some ''inline'',
       dest_path = Some ''out.cfg'', ignored_instances = Some (PStr ''b''),
       render_data = Some (PStr ''c'')\<rparr>
   \<and> stored (snd (main (jinja2_env no_match)
         (scenario_params [CHR 0x0D, CHR ''b'', CHR ''c''] (PStr [])) False empty_dir)) ''out.cfg''
     = Some [CHR 0x0D]
   \<and> fst (main (jinja2_env no_match)
         (scenario_params [CHR 0x0D, CHR ''b'', CHR ''c''] (PStr [])) False
         (snd (main (jinja2_env no_match)
            (scenario_params [CHR 0x0D, CHR ''b'', CHR ''c''] (PStr [])) False empty_dir)))
   = Exit_json \<lparr>changed = True, rendered_config = [CHR 0x0D],
       config_source = Some ''inline'', template_source = Some ''inline'',
       dest_path = Some ''out.cfg'', ignored_instances = Some (PStr ''b''),
       render_data = Some (PStr ''c'')\<rparr>"
  by code_simp

text \<open>
  C7. The claim: when nothing matches, the run fails with the error for no match. The
  module tests the value of the parser as a whole (line 352), and on no match the parser
  returns a list that holds a list that holds an empty dict, which is not empty. On the
  run below no line of the configuration matches the template: the test of line 352
  passes, line 356 takes the empty dict, and the run fails on the unpacking of line 360,
  not with the message of line 353.
\<close>

theorem C7_zero_matches:
  "py_truthy no_match
   \<and> fst (main (jinja2_env no_match)
        (scenario_params ''interface {{ ifname }} description {{ desc }}'' (PStr []))
        False empty_dir)
     = Fail_json (Exception (UnpackError 45))
         \<lparr>changed = False, rendered_config = [], config_source = Some ''inline'',
          template_source = Some ''inline'', dest_path = Some ''out.cfg'',
          ignored_instances = None, render_data = None\<rparr>
   \<and> Exception (UnpackError 45) \<noteq> NoValidData"
  by code_simp

text \<open>
  C8. A run that ends in \<^verbatim>\<open>fail_json\<close> leaves the file system as it found it; and a
  stage that fails ends the run there, in \<^verbatim>\<open>fail_json\<close> with the exception of that stage
  and with no write: loading the configuration, loading the template, parsing, and
  \<^verbatim>\<open>render_configuration\<close> (which holds the filter and the rendering).
\<close>

theorem C8_failure_no_write:
  "(failed (fst (main env p cm fs)) \<longrightarrow> snd (main env p cm fs) = fs)
   \<and> (load_source fs (param_config p) (param_config_src p) = Inl e \<longrightarrow>
        (\<exists>r. main env p cm fs = (Fail_json (Exception e) r, fs)))
   \<and> (load_source fs (param_config p) (param_config_src p) = Inr (c, cs)
      \<and> load_source fs (param_template p) (param_template_src p) = Inl e \<longrightarrow>
        (\<exists>r. main env p cm fs = (Fail_json (Exception e) r, fs)))
   \<and> (load_source fs (param_config p) (param_config_src p) = Inr (c, cs)
      \<and> load_source fs (param_template p) (param_template_src p) = Inr (t, ts)
      \<and> parse_configuration env c t = Inl e \<longrightarrow>
        (\<exists>r. main env p cm fs = (Fail_json (Exception e) r, fs)))
   \<and> (load_source fs (param_config p) (param_config_src p) = Inr (c, cs)
      \<and> load_source fs (param_template p) (param_template_src p) = Inr (t, ts)
      \<and> parse_configuration env c t = Inr raw \<and> py_truthy raw
      \<and> normalise raw = Inr parsed_data
      \<and> render_configuration env parsed_data t (param_keys_ignore p) = Inl e \<longrightarrow>
        (\<exists>r. main env p cm fs = (Fail_json (Exception e) r, fs)))"
proof (intro conjI impI)
  assume "failed (fst (main env p cm fs))"
  then show "snd (main env p cm fs) = fs" by (rule main_failed_fs)
next
  assume "load_source fs (param_config p) (param_config_src p) = Inl e"
  then show "\<exists>r. main env p cm fs = (Fail_json (Exception e) r, fs)"
    by (simp add: main_def Let_def)
next
  assume "load_source fs (param_config p) (param_config_src p) = Inr (c, cs)
      \<and> load_source fs (param_template p) (param_template_src p) = Inl e"
  then show "\<exists>r. main env p cm fs = (Fail_json (Exception e) r, fs)"
    by (simp add: main_def Let_def)
next
  assume "load_source fs (param_config p) (param_config_src p) = Inr (c, cs)
      \<and> load_source fs (param_template p) (param_template_src p) = Inr (t, ts)
      \<and> parse_configuration env c t = Inl e"
  then show "\<exists>r. main env p cm fs = (Fail_json (Exception e) r, fs)"
    by (simp add: main_def Let_def)
next
  assume "load_source fs (param_config p) (param_config_src p) = Inr (c, cs)
      \<and> load_source fs (param_template p) (param_template_src p) = Inr (t, ts)
      \<and> parse_configuration env c t = Inr raw \<and> py_truthy raw
      \<and> normalise raw = Inr parsed_data
      \<and> render_configuration env parsed_data t (param_keys_ignore p) = Inl e"
  then show "\<exists>r. main env p cm fs = (Fail_json (Exception e) r, fs)"
    by (simp add: main_def Let_def)
qed

text \<open>
  C8 on two failing runs that name the destination \<^verbatim>\<open>out.cfg\<close>, which holds the text
  \<^verbatim>\<open>old\<close>: the configuration file does not exist (loading fails), and the template leaves
  a \<^verbatim>\<open>{{\<close> open (rendering fails). Both runs fail and the destination still holds \<^verbatim>\<open>old\<close>.
\<close>

theorem C8_witness:
  "failed (fst (main (jinja2_env scenario_raw)
      \<lparr>param_config = None, param_config_src = Some ''missing.cfg'',
       param_template = Some ''interface {{ ifname }}'', param_template_src = None,
       param_dest_path = Some ''out.cfg'', param_keys_ignore = PStr []\<rparr>
      False (with_out_cfg ''old'')))
   \<and> stored (snd (main (jinja2_env scenario_raw)
      \<lparr>param_config = None, param_config_src = Some ''missing.cfg'',
       param_template = Some ''interface {{ ifname }}'', param_template_src = None,
       param_dest_path = Some ''out.cfg'', param_keys_ignore = PStr []\<rparr>
      False (with_out_cfg ''old''))) ''out.cfg'' = Some ''old''
   \<and> failed (fst (main (jinja2_env scenario_raw)
      (scenario_params ''interface {{ ifname'' (PStr [])) False (with_out_cfg ''old'')))
   \<and> stored (snd (main (jinja2_env scenario_raw)
      (scenario_params ''interface {{ ifname'' (PStr [])) False (with_out_cfg ''old'')))
        ''out.cfg'' = Some ''old''"
proof -
  let ?env = "jinja2_env scenario_raw"
  let ?fs = "with_out_cfg ''old''"
  let ?p = "\<lparr>param_config = None, param_config_src = Some ''missing.cfg'',
       param_template = Some ''interface {{ ifname }}'', param_template_src = None,
       param_dest_path = Some ''out.cfg'', param_keys_ignore = PStr []\<rparr>"
  let ?q = "scenario_params ''interface {{ ifname'' (PStr [])"
  have a: "failed (fst (main ?env ?p False ?fs))" by code_simp
  have b: "failed (fst (main ?env ?q False ?fs))" by code_simp
  have c: "snd (main ?env ?p False ?fs) = ?fs"
    using C8_failure_no_write[of ?env ?p False ?fs] a by blast
  have d: "snd (main ?env ?q False ?fs) = ?fs"
    using C8_failure_no_write[of ?env ?q False ?fs] b by blast
  have e: "stored ?fs ''out.cfg'' = Some ''old''"
    by (simp add: with_out_cfg_def empty_dir_def)
  show ?thesis using a b e by (simp add: c d)
qed

text \<open>
  C9. The claim: on empty parsed data \<^verbatim>\<open>render_configuration\<close> returns the template text
  alone, the unpacking of line 360 fails and the run aborts. Python unpacks a string
  character by character, so the unpacking fails only when the template text does not
  have three characters. On the run below nothing is extracted and the template text is
  \<^verbatim>\<open>abc\<close>: the run ends in \<^verbatim>\<open>exit_json\<close>, reports the strings \<^verbatim>\<open>b\<close> and \<^verbatim>\<open>c\<close> where the
  lists of ignored and kept records belong, and writes \<^verbatim>\<open>a\<close> to the destination.
\<close>

theorem C9_three_characters:
  "render_configuration (jinja2_env no_match) (PDict []) ''abc'' (PStr []) = Inr (Text ''abc'')
   \<and> fst (main (jinja2_env no_match) (scenario_params ''abc'' (PStr [])) False empty_dir)
     = Exit_json \<lparr>changed = True, rendered_config = ''a'', config_source = Some ''inline'',
         template_source = Some ''inline'', dest_path = Some ''out.cfg'',
         ignored_instances = Some (PStr ''b''), render_data = Some (PStr ''c'')\<rparr>
   \<and> stored (snd (main (jinja2_env no_match) (scenario_params ''abc'' (PStr []))
        False empty_dir)) ''out.cfg'' = Some ''a''"
  by code_simp

text \<open>
  C10. With a string as \<^verbatim>\<open>keys_ignore\<close> the prefixes the filter tries are the characters
  of the string, one by one: on a non-empty list of records (dicts), where the template
  renders the records that are not ignored, the ignored records are exactly those of
  which some field value, taken as text, starts with some character of the string, and
  the kept records are the others.
\<close>

theorem C10_string_keys_ignore:
  assumes "Template env t = Inr tm" and "entries \<noteq> []" and "s \<noteq> []"
    and "\<forall>e\<in>set entries. \<exists>kvs. e = PDict kvs
           \<and> (\<not> starts_with_some env (map (\<lambda>c. [c]) s) e \<longrightarrow> (\<exists>part. tm kvs = Inr part))"
  shows "render_configuration env (PList entries) t (PStr s)
           = Inr (Triple
               (str_join [CHR 0x0A]
                  (map (part_of tm)
                     (filter (\<lambda>e. \<not> starts_with_some env (map (\<lambda>c. [c]) s) e) entries)))
               (filter (starts_with_some env (map (\<lambda>c. [c]) s)) entries)
               (filter (\<lambda>e. \<not> starts_with_some env (map (\<lambda>c. [c]) s) e) entries))
       \<and> (\<forall>kvs. starts_with_some env (map (\<lambda>c. [c]) s) (PDict kvs)
            = (\<exists>v\<in>set (map snd kvs). \<exists>c\<in>set s. py_str env v \<noteq> [] \<and> hd (py_str env v) = c))"
proof -
  have each: "\<forall>e\<in>set entries. \<exists>kvs. e = PDict kvs
      \<and> entry_ignored env e (PStr s) = Inr (starts_with_some env (map (\<lambda>c. [c]) s) e)
      \<and> (\<not> starts_with_some env (map (\<lambda>c. [c]) s) e \<longrightarrow> (\<exists>part. tm kvs = Inr part))"
  proof
    fix e assume "e \<in> set entries"
    then obtain kvs where "e = PDict kvs"
      "\<not> starts_with_some env (map (\<lambda>c. [c]) s) e \<longrightarrow> (\<exists>part. tm kvs = Inr part)"
      using assms(4) by blast
    then show "\<exists>kvs. e = PDict kvs
      \<and> entry_ignored env e (PStr s) = Inr (starts_with_some env (map (\<lambda>c. [c]) s) e)
      \<and> (\<not> starts_with_some env (map (\<lambda>c. [c]) s) e \<longrightarrow> (\<exists>part. tm kvs = Inr part))"
      using entry_ignored_str[of env kvs s] by simp
  qed
  have one: "startswith x [c] = (x \<noteq> [] \<and> hd x = c)" for x :: string and c
    by (cases x) (auto simp: startswith_def)
  have chars: "\<forall>kvs. starts_with_some env (map (\<lambda>c. [c]) s) (PDict kvs)
            = (\<exists>v\<in>set (map snd kvs). \<exists>c\<in>set s. py_str env v \<noteq> [] \<and> hd (py_str env v) = c)"
    by (auto simp: starts_with_some_def one)
  show ?thesis
    using render_configuration_partition[OF assms(1,2) each] chars by blast
qed

text \<open>
  C10 on the scenario with the string \<^verbatim>\<open>Gi0/1\<close> as \<^verbatim>\<open>keys_ignore\<close>: the name of the
  first record does not start with \<^verbatim>\<open>Gi0/1\<close>, but it starts with the character \<^verbatim>\<open>G\<close>, and
  both records are ignored.
\<close>

theorem C10_witness:
  "Template (jinja2_env scenario_raw) ''interface {{ ifname }}''
     = Inr (jinja2_render str_const [Data ''interface '', Var ''ifname'', Data []])
   \<and> \<not> startswith ''Gi0/0'' ''Gi0/1''
   \<and> render_configuration (jinja2_env scenario_raw) (PList scenario_records)
       ''interface {{ ifname }}'' (PStr ''Gi0/1'')
     = Inr (Triple [] scenario_records [])"
proof -
  let ?env = "jinja2_env scenario_raw"
  let ?t = "''interface {{ ifname }}''"
  let ?tm = "jinja2_render str_const [Data ''interface '', Var ''ifname'', Data []]"
  let ?cs = "map (\<lambda>c. [c]) ''Gi0/1''"
  have a: "Template ?env ?t = Inr ?tm"
    by (simp add: jinja2_env_def jinja2_Template_def jinja2_lex_def strip_trailing_newline_def
        var_name_def blank_def ident_start_def ident_char_def reserved_names_def)
  have b: "scenario_records \<noteq> []" by (simp add: scenario_records_def)
  have c: "''Gi0/1'' \<noteq> []" by simp
  have d: "starts_with_some ?env ?cs (PDict [(''ifname'', PStr ''Gi0/0'')])"
    "starts_with_some ?env ?cs (PDict [(''ifname'', PStr ''Gi0/1'')])"
    by (simp_all add: starts_with_some_def py_str_def startswith_def)
  have e: "\<forall>e\<in>set scenario_records. \<exists>kvs. e = PDict kvs
           \<and> (\<not> starts_with_some ?env ?cs e \<longrightarrow> (\<exists>part. ?tm kvs = Inr part))"
    using d by (simp add: scenario_records_def)
  have f: "\<not> startswith ''Gi0/0'' ''Gi0/1''" by (simp add: startswith_def)
  from C10_string_keys_ignore[OF a b c e]
  show ?thesis using a d f by (simp add: scenario_records_def)
qed

end
